theory Spec2Isabelle
  imports Complex_Main "HOL-Library.Word"
begin

section \<open>ftpclient.h: a shallow embedding\<close>

text \<open>
  The library is a thin layer over an external transfer engine (libcurl). The embedding
  follows the C source function by function. What the C code reads from its surroundings
  is an explicit argument of the model:
  \<^item> whether an allocation (\<open>strdup\<close>, \<open>calloc\<close>, \<open>realloc\<close>, \<open>curl_slist_append\<close>)
    succeeds is a \<open>bool\<close> argument;
  \<^item> the local file system and the calls made to the outside are a \<open>world\<close> record that
    is passed in and returned;
  \<^item> what the engine does during one \<open>curl_easy_perform\<close> is an \<open>engine\<close> record.
  A pointer argument is an \<open>option\<close> (\<open>None\<close> is \<open>NULL\<close>). A call whose C behaviour is
  undefined (\<open>strlen\<close> or \<open>memset\<close> of \<open>NULL\<close>, a copy outside the block) has the result
  \<open>None\<close> of an outer \<open>option\<close>, or \<open>Undefined\<close>.
\<close>

subsection \<open>Configuration macros and enums\<close>

type_synonym byte = "8 word"
type_synonym size_t = "64 word"

definition FTP_MAX_URL_LENGTH :: nat where
  "FTP_MAX_URL_LENGTH = 2048"

definition FTP_BUFFER_SIZE :: size_t where
  "FTP_BUFFER_SIZE = 8192"

datatype ftp_error_t =
    FTP_OK
  | FTP_ERROR_INIT
  | FTP_ERROR_CONNECTION
  | FTP_ERROR_AUTH
  | FTP_ERROR_TRANSFER
  | FTP_ERROR_FILE_NOT_FOUND
  | FTP_ERROR_MEMORY
  | FTP_ERROR_INVALID_PARAM
  | FTP_ERROR_CURL
  | FTP_ERROR_FILE_IO
  | FTP_ERROR_TIMEOUT

fun error_code :: "ftp_error_t \<Rightarrow> int" where
  "error_code FTP_OK = 0"
| "error_code FTP_ERROR_INIT = -1"
| "error_code FTP_ERROR_CONNECTION = -2"
| "error_code FTP_ERROR_AUTH = -3"
| "error_code FTP_ERROR_TRANSFER = -4"
| "error_code FTP_ERROR_FILE_NOT_FOUND = -5"
| "error_code FTP_ERROR_MEMORY = -6"
| "error_code FTP_ERROR_INVALID_PARAM = -7"
| "error_code FTP_ERROR_CURL = -8"
| "error_code FTP_ERROR_FILE_IO = -9"
| "error_code FTP_ERROR_TIMEOUT = -10"

datatype ftp_mode_t = FTP_MODE_PASSIVE | FTP_MODE_ACTIVE

datatype ftp_ssl_mode_t = FTP_SSL_NONE | FTP_SSL_TRY | FTP_SSL_CONTROL | FTP_SSL_ALL

fun ssl_mode_value :: "ftp_ssl_mode_t \<Rightarrow> int" where
  "ssl_mode_value FTP_SSL_NONE = 0"
| "ssl_mode_value FTP_SSL_TRY = 1"
| "ssl_mode_value FTP_SSL_CONTROL = 2"
| "ssl_mode_value FTP_SSL_ALL = 3"

subsection \<open>The engine's result codes\<close>

text \<open>
  \<open>CURLcode\<close> is the engine's enum; the source compares it with these constants only. The
  numbers are those of \<open>curl/curl.h\<close>.
\<close>

type_synonym CURLcode = int

definition CURLE_OK :: CURLcode where "CURLE_OK = 0"
definition CURLE_OPERATION_TIMEDOUT :: CURLcode where "CURLE_OPERATION_TIMEDOUT = 28"
definition CURLE_ABORTED_BY_CALLBACK :: CURLcode where "CURLE_ABORTED_BY_CALLBACK = 42"
definition CURLE_LOGIN_DENIED :: CURLcode where "CURLE_LOGIN_DENIED = 67"
definition CURLE_REMOTE_FILE_NOT_FOUND :: CURLcode where "CURLE_REMOTE_FILE_NOT_FOUND = 78"

subsection \<open>Structures\<close>

text \<open>
  The progress callback gets the user pointer (an opaque number here) and four doubles.
  The \<open>curl_off_t\<close> to \<open>double\<close> casts of the wrapper are \<open>real_of_int\<close>: no property
  below depends on the rounding of values above \<open>2^53\<close>.
\<close>

type_synonym ftp_progress_callback_t = "nat \<Rightarrow> real \<Rightarrow> real \<Rightarrow> real \<Rightarrow> real \<Rightarrow> int"

record ftp_memory_buffer_t =
  data :: "byte list option"
  size_m :: size_t
  capacity :: size_t

record ftp_config_t =
  host :: "string option"
  port :: int
  username :: "string option"
  password :: "string option"
  mode :: ftp_mode_t
  ssl_mode :: ftp_ssl_mode_t
  verify_ssl :: int
  timeout :: int
  connect_timeout :: int
  verbose :: int
  progress_callback :: "ftp_progress_callback_t option"
  progress_user_data :: nat

text \<open>
  The engine's easy handle is the list of options set on it since the last
  \<open>curl_easy_reset\<close>, in the order of the \<open>curl_easy_setopt\<close> calls. The function and
  data pointers the source installs are the constructors without a value.
\<close>

datatype curlopt =
    CURLOPT_URL string
  | CURLOPT_USERNAME "string option"
  | CURLOPT_PASSWORD "string option"
  | CURLOPT_TIMEOUT int
  | CURLOPT_CONNECTTIMEOUT int
  | CURLOPT_VERBOSE int
  | CURLOPT_FTPPORT string
  | CURLOPT_FTP_USE_EPSV int
  | CURLOPT_USE_SSL int
  | CURLOPT_SSL_VERIFYPEER int
  | CURLOPT_SSL_VERIFYHOST int
  | CURLOPT_XFERINFOFUNCTION_wrapper
  | CURLOPT_XFERINFODATA_client
  | CURLOPT_NOPROGRESS int
  | CURLOPT_QUOTE "string list"
  | CURLOPT_WRITEFUNCTION_memory
  | CURLOPT_WRITEFUNCTION_file
  | CURLOPT_WRITEDATA_buffer
  | CURLOPT_WRITEDATA_file string
  | CURLOPT_UPLOAD int
  | CURLOPT_READFUNCTION_file
  | CURLOPT_READDATA_file string
  | CURLOPT_INFILESIZE_LARGE int
  | CURLOPT_NOBODY int
  | CURLOPT_FILETIME int
  | CURLOPT_HEADER int

record ftp_client_t =
  curl :: "curlopt list option"
  config :: ftp_config_t
  last_error :: string

subsection \<open>C library helpers\<close>

text \<open>\<open>snprintf\<close> into a buffer of \<open>n\<close> bytes keeps at most \<open>n - 1\<close> characters.\<close>

definition snprintf :: "nat \<Rightarrow> string \<Rightarrow> string" where
  "snprintf n text = take (n - 1) text"

definition strdup :: "bool \<Rightarrow> string \<Rightarrow> string option" where
  "strdup ok s = (if ok then Some s else None)"

text \<open>\<open>p[0] == '/'\<close> on a C string: the empty string starts with its terminator.\<close>

fun starts_with_slash :: "string \<Rightarrow> bool" where
  "starts_with_slash [] = False"
| "starts_with_slash (c # cs) = (c = CHR ''/'')"

text \<open>The \<open>%d\<close> conversion.\<close>

definition digit_char :: "nat \<Rightarrow> char" where
  "digit_char d = ''0123456789'' ! d"

fun dec_digits :: "nat \<Rightarrow> string" where
  "dec_digits n = (if n < 10 then [digit_char n] else dec_digits (n div 10) @ [digit_char (n mod 10)])"

declare dec_digits.simps [simp del]

definition show_int :: "int \<Rightarrow> string" where
  "show_int i = (if i < 0 then CHR ''-'' # dec_digits (nat (- i)) else dec_digits (nat i))"

subsection \<open>Internal helper functions\<close>

text \<open>
  \<open>write_memory_callback\<close>. The block \<open>data\<close> points to is a byte list as long as the
  allocation. \<open>realloc\<close> succeeds or not as \<open>realloc_ok\<close> says; the bytes it adds are
  indeterminate, given by \<open>junk\<close>. The doubling loop runs on 64-bit \<open>size_t\<close> and need not
  end once the product wraps to 0: its result is an \<open>option\<close>.
\<close>

partial_function (option) grow_capacity :: "size_t \<Rightarrow> size_t \<Rightarrow> size_t option" where
  "grow_capacity needed new_capacity =
     (if new_capacity < needed then grow_capacity needed (new_capacity * 2)
      else Some new_capacity)"

definition realloc :: "bool \<Rightarrow> (nat \<Rightarrow> byte) \<Rightarrow> byte list option \<Rightarrow> size_t \<Rightarrow> byte list option" where
  "realloc realloc_ok junk old new_size =
     (if realloc_ok
      then Some (map (\<lambda>i. case old of None \<Rightarrow> junk i
                          | Some blk \<Rightarrow> if i < length blk then blk ! i else junk i)
                     [0 ..< unat new_size])
      else None)"

datatype 'a outcome = Returns 'a | Undefined | Diverges

text \<open>
  The tail of the callback: \<open>memcpy\<close> of \<open>realsize\<close> bytes to offset \<open>size\<close>, the size
  update and the terminator. Reading past \<open>contents\<close> or writing outside the block is
  undefined.
\<close>

definition store_chunk ::
  "byte list \<Rightarrow> size_t \<Rightarrow> ftp_memory_buffer_t \<Rightarrow> (size_t \<times> ftp_memory_buffer_t) outcome" where
  "store_chunk contents realsize mem =
     (case data mem of
        None \<Rightarrow> Undefined
      | Some blk \<Rightarrow>
          if length contents < unat realsize
             \<or> length blk < unat (size_m mem) + unat realsize
             \<or> length blk \<le> unat (size_m mem + realsize)
          then Undefined
          else
            let copied = take (unat (size_m mem)) blk @ take (unat realsize) contents
                           @ drop (unat (size_m mem) + unat realsize) blk;
                new_size = size_m mem + realsize
            in Returns (realsize,
                 mem\<lparr>data := Some (copied[unat new_size := 0]), size_m := new_size\<rparr>))"

definition write_memory_callback ::
  "bool \<Rightarrow> (nat \<Rightarrow> byte) \<Rightarrow> byte list \<Rightarrow> size_t \<Rightarrow> size_t \<Rightarrow> ftp_memory_buffer_t
     \<Rightarrow> (size_t \<times> ftp_memory_buffer_t) outcome" where
  "write_memory_callback realloc_ok junk contents sz nmemb mem =
     (let realsize = sz * nmemb in
      if size_m mem + realsize + 1 > capacity mem
      then
        (case grow_capacity (size_m mem + realsize + 1)
                (if capacity mem = 0 then FTP_BUFFER_SIZE else capacity mem * 2) of
           None \<Rightarrow> Diverges
         | Some new_capacity \<Rightarrow>
             (case realloc realloc_ok junk (data mem) new_capacity of
                None \<Rightarrow> Returns (0, mem)
              | Some new_data \<Rightarrow>
                  store_chunk contents realsize
                    (mem\<lparr>data := Some new_data, capacity := new_capacity\<rparr>)))
      else store_chunk contents realsize mem)"

definition progress_callback_wrapper :: "ftp_client_t \<Rightarrow> int \<Rightarrow> int \<Rightarrow> int \<Rightarrow> int \<Rightarrow> int" where
  "progress_callback_wrapper client dltotal dlnow ultotal ulnow =
     (case progress_callback (config client) of
        Some cb \<Rightarrow> cb (progress_user_data (config client)) (real_of_int dltotal)
                     (real_of_int dlnow) (real_of_int ultotal) (real_of_int ulnow)
      | None \<Rightarrow> 0)"

text \<open>
  \<open>build_ftp_url\<close>: \<open>Inl e\<close> is the return of \<open>e\<close> with the buffer untouched, \<open>Inr u\<close> the
  return of \<open>FTP_OK\<close> with \<open>u\<close> written to the buffer; \<open>None\<close> is \<open>strlen\<close> of a \<open>NULL\<close> host.
\<close>

definition url_text :: "string \<Rightarrow> int \<Rightarrow> string option \<Rightarrow> string" where
  "url_text h p remote_path =
     (case remote_path of
        Some path \<Rightarrow>
          if starts_with_slash path
          then ''ftp'' @ ''://'' @ h @ '':'' @ show_int p @ path
          else ''ftp'' @ ''://'' @ h @ '':'' @ show_int p @ ''/'' @ path
      | None \<Rightarrow> ''ftp'' @ ''://'' @ h @ '':'' @ show_int p @ ''/'')"

definition build_ftp_url ::
  "ftp_client_t \<Rightarrow> string option \<Rightarrow> nat \<Rightarrow> (ftp_error_t + string) option" where
  "build_ftp_url client remote_path url_size =
     (case host (config client) of
        None \<Rightarrow> None
      | Some h \<Rightarrow>
          let base_len = length ''ftp'' + 3 + length h + 1 + 5 + 1;
              path_len = (case remote_path of Some path \<Rightarrow> length path | None \<Rightarrow> 0);
              required_len = base_len + path_len + 1
          in if required_len > url_size then Some (Inl FTP_ERROR_INVALID_PARAM)
             else Some (Inr (snprintf url_size (url_text h (port (config client)) remote_path))))"

definition setup_curl_common :: "ftp_client_t \<Rightarrow> curlopt list \<Rightarrow> curlopt list" where
  "setup_curl_common client h =
     h @ [CURLOPT_USERNAME (username (config client)),
          CURLOPT_PASSWORD (password (config client)),
          CURLOPT_TIMEOUT (timeout (config client)),
          CURLOPT_CONNECTTIMEOUT (connect_timeout (config client)),
          CURLOPT_VERBOSE (if verbose (config client) \<noteq> 0 then 1 else 0)]
       @ (if mode (config client) = FTP_MODE_ACTIVE then [CURLOPT_FTPPORT ''-'']
          else [CURLOPT_FTP_USE_EPSV 1])
       @ (if ssl_mode (config client) \<noteq> FTP_SSL_NONE
          then [CURLOPT_USE_SSL (ssl_mode_value (ssl_mode (config client))),
                CURLOPT_SSL_VERIFYPEER (if verify_ssl (config client) \<noteq> 0 then 1 else 0),
                CURLOPT_SSL_VERIFYHOST (if verify_ssl (config client) \<noteq> 0 then 2 else 0)]
          else [])
       @ (if progress_callback (config client) \<noteq> None
          then [CURLOPT_XFERINFOFUNCTION_wrapper, CURLOPT_XFERINFODATA_client, CURLOPT_NOPROGRESS 0]
          else [CURLOPT_NOPROGRESS 1])"

subsection \<open>The engine and the local files\<close>

text \<open>
  One \<open>curl_easy_perform\<close>, as the environment decides it: the progress reports the engine
  makes (download total, download now, upload total, upload now), the body bytes it hands
  to the write callback, the result when nothing aborts it, the text of
  \<open>curl_easy_strerror\<close>, and the answer of \<open>curl_easy_getinfo\<close> for
  \<open>CURLINFO_CONTENT_LENGTH_DOWNLOAD_T\<close>. \<open>continue_known\<close> says whether the engine is one
  that treats the return value \<open>CURL_PROGRESSFUNC_CONTINUE\<close> of a progress function as a
  request to go on (libcurl from 7.68.0; the header asks for 7.20.0 or later).
  \<open>memory_data\<close> is the \<open>data\<close> pointer of the local \<open>ftp_memory_buffer_t\<close> when
  \<open>curl_easy_perform\<close> returns, after the engine's calls of \<open>write_memory_callback\<close>
  (\<open>NULL\<close> when it made none).
\<close>

record engine =
  ticks :: "(int \<times> int \<times> int \<times> int) list"
  delivered :: "byte list"
  outcome :: CURLcode
  strerror :: "CURLcode \<Rightarrow> string"
  info_result :: CURLcode
  content_length :: int
  continue_known :: bool
  memory_data :: "string option"

datatype event =
    Fopen string string bool
  | Fclose string
  | Perform "curlopt list" CURLcode
  | Remove string

record world =
  files :: "string \<Rightarrow> byte list option"
  writable :: "string \<Rightarrow> bool"
  trace :: "event list"

definition log_event :: "event \<Rightarrow> world \<Rightarrow> world" where
  "log_event ev w = w\<lparr>trace := trace w @ [ev]\<rparr>"

text \<open>The value of \<open>CURLOPT_NOPROGRESS\<close>, whether a progress function is installed and
  whether its data pointer is the client: the last setting on the handle counts; \<open>d\<close> is
  the value of a fresh handle.\<close>

primrec get_noprogress :: "curlopt list \<Rightarrow> int \<Rightarrow> int" where
  "get_noprogress [] d = d"
| "get_noprogress (opt # opts) d =
     get_noprogress opts (case opt of CURLOPT_NOPROGRESS v \<Rightarrow> v | _ \<Rightarrow> d)"

primrec has_xferinfo :: "curlopt list \<Rightarrow> bool \<Rightarrow> bool" where
  "has_xferinfo [] d = d"
| "has_xferinfo (opt # opts) d =
     has_xferinfo opts (case opt of CURLOPT_XFERINFOFUNCTION_wrapper \<Rightarrow> True | _ \<Rightarrow> d)"

primrec get_xferinfodata :: "curlopt list \<Rightarrow> bool \<Rightarrow> bool" where
  "get_xferinfodata [] d = d"
| "get_xferinfodata (opt # opts) d =
     get_xferinfodata opts (case opt of CURLOPT_XFERINFODATA_client \<Rightarrow> True | _ \<Rightarrow> d)"

text \<open>
  The engine's contract for the progress function (\<open>CURLOPT_XFERINFOFUNCTION\<close>): while
  \<open>CURLOPT_NOPROGRESS\<close> is 0 it is called on every report with the data pointer of the
  handle. A return value of 0 lets the transfer go on, and so does
  \<open>CURL_PROGRESSFUNC_CONTINUE\<close> (\<open>0x10000001\<close>) on an engine that knows it; every other
  value aborts the transfer with \<open>CURLE_ABORTED_BY_CALLBACK\<close>. The function the source
  installs is \<open>progress_callback_wrapper\<close>. Its data pointer is the client when
  \<open>CURLOPT_XFERINFODATA\<close> was set, and \<open>client\<close> below is the object that pointer refers
  to; with no data pointer on the handle the wrapper dereferences \<open>NULL\<close>, which is
  undefined (\<open>None\<close>).
\<close>

definition CURL_PROGRESSFUNC_CONTINUE :: int where
  "CURL_PROGRESSFUNC_CONTINUE = 268435457"

definition aborting :: "engine \<Rightarrow> int \<Rightarrow> bool" where
  "aborting e r = (r \<noteq> 0 \<and> \<not> (continue_known e \<and> r = CURL_PROGRESSFUNC_CONTINUE))"

definition curl_easy_perform ::
  "ftp_client_t \<Rightarrow> curlopt list \<Rightarrow> engine \<Rightarrow> CURLcode option" where
  "curl_easy_perform client h e =
     (if get_noprogress h 1 = 0 \<and> has_xferinfo h False \<and> ticks e \<noteq> []
      then if get_xferinfodata h False
           then Some (if list_ex (\<lambda>(dltotal, dlnow, ultotal, ulnow).
                           aborting e (progress_callback_wrapper client dltotal dlnow
                                          ultotal ulnow)) (ticks e)
                      then CURLE_ABORTED_BY_CALLBACK
                      else outcome e)
           else None
      else Some (outcome e))"

definition curl_slist_append :: "bool \<Rightarrow> string list option \<Rightarrow> string \<Rightarrow> string list option" where
  "curl_slist_append ok lst s =
     (if ok then Some ((case lst of None \<Rightarrow> [] | Some xs \<Rightarrow> xs) @ [s]) else None)"

definition set_error :: "string \<Rightarrow> ftp_client_t \<Rightarrow> ftp_client_t" where
  "set_error text client = client\<lparr>last_error := snprintf 512 text\<rparr>"

definition ftp_client_execute_simple_command ::
  "world \<Rightarrow> engine \<Rightarrow> ftp_client_t option \<Rightarrow> string list option \<Rightarrow> string
     \<Rightarrow> (ftp_error_t \<times> ftp_client_t option \<times> world) option" where
  "ftp_client_execute_simple_command w e client commands error_prefix =
     (case client of
        None \<Rightarrow> Some (FTP_ERROR_INVALID_PARAM, client, w)
      | Some c \<Rightarrow>
          if curl c = None \<or> commands = None then Some (FTP_ERROR_INVALID_PARAM, client, w)
          else
            let c0 = c\<lparr>curl := Some []\<rparr> in
            (case build_ftp_url c0 (Some ''/'') FTP_MAX_URL_LENGTH of
               None \<Rightarrow> None
             | Some (Inl result) \<Rightarrow>
                 Some (result, Some (set_error (error_prefix @ '': URL too long'') c0), w)
             | Some (Inr url) \<Rightarrow>
                 let h = setup_curl_common c0 [CURLOPT_URL url]
                           @ [CURLOPT_QUOTE (case commands of Some cmds \<Rightarrow> cmds | None \<Rightarrow> []),
                              CURLOPT_WRITEFUNCTION_memory, CURLOPT_WRITEDATA_buffer];
                     c1 = c0\<lparr>curl := Some h\<rparr>
                 in (case curl_easy_perform c1 h e of
                       None \<Rightarrow> None
                     | Some res \<Rightarrow>
                         let w1 = log_event (Perform h res) w
                         in if res \<noteq> CURLE_OK
                            then Some (FTP_ERROR_TRANSFER,
                                       Some (set_error (error_prefix @ '': '' @ strerror e res) c1),
                                       w1)
                            else Some (FTP_OK, Some c1, w1))))"

subsection \<open>API implementation\<close>

text \<open>\<open>ftp_client_init_config\<close>: the two flags say whether the two \<open>strdup\<close> calls
  succeed; \<open>memset\<close> through a \<open>NULL\<close> pointer is undefined.\<close>

definition ftp_client_init_config ::
  "bool \<Rightarrow> bool \<Rightarrow> ftp_config_t option \<Rightarrow> ftp_config_t option" where
  "ftp_client_init_config user_ok pass_ok cfg =
     (case cfg of
        None \<Rightarrow> None
      | Some _ \<Rightarrow>
          Some \<lparr>host = None, port = 21,
                username = strdup user_ok ''anonymous'',
                password = strdup pass_ok ''user@example.com'',
                mode = FTP_MODE_PASSIVE, ssl_mode = FTP_SSL_NONE, verify_ssl = 1,
                timeout = 60, connect_timeout = 30, verbose = 0,
                progress_callback = None, progress_user_data = 0\<rparr>)"

text \<open>The configuration \<open>calloc\<close> leaves: every field zero.\<close>

definition zero_config :: ftp_config_t where
  "zero_config = \<lparr>host = None, port = 0, username = None, password = None,
                   mode = FTP_MODE_PASSIVE, ssl_mode = FTP_SSL_NONE, verify_ssl = 0,
                   timeout = 0, connect_timeout = 0, verbose = 0,
                   progress_callback = None, progress_user_data = 0\<rparr>"

definition ftp_client_create :: "bool \<Rightarrow> bool \<Rightarrow> bool \<Rightarrow> bool \<Rightarrow> ftp_client_t option" where
  "ftp_client_create calloc_ok curl_ok user_ok pass_ok =
     (if \<not> calloc_ok then None
      else if \<not> curl_ok then None
      else (case ftp_client_init_config user_ok pass_ok (Some zero_config) of
              None \<Rightarrow> None
            | Some cfg \<Rightarrow> Some \<lparr>curl = Some [], config = cfg, last_error = []\<rparr>))"

definition ftp_client_set_host ::
  "bool \<Rightarrow> ftp_client_t option \<Rightarrow> string option \<Rightarrow> int \<Rightarrow> ftp_error_t \<times> ftp_client_t option" where
  "ftp_client_set_host strdup_ok client h p =
     (case (client, h) of
        (Some c, Some hst) \<Rightarrow>
          let c1 = c\<lparr>config := (config c)\<lparr>host := strdup strdup_ok hst\<rparr>\<rparr> in
          if host (config c1) = None then (FTP_ERROR_MEMORY, Some c1)
          else if p > 0 \<and> p \<le> 65535
               then (FTP_OK, Some (c1\<lparr>config := (config c1)\<lparr>port := p\<rparr>\<rparr>))
               else (FTP_OK, Some c1)
      | _ \<Rightarrow> (FTP_ERROR_INVALID_PARAM, client))"

definition ftp_client_set_progress_callback ::
  "ftp_client_t option \<Rightarrow> ftp_progress_callback_t option \<Rightarrow> nat \<Rightarrow> ftp_client_t option" where
  "ftp_client_set_progress_callback client callback user_data =
     (case client of
        None \<Rightarrow> None
      | Some c \<Rightarrow> Some (c\<lparr>config := (config c)\<lparr>progress_callback := callback,
                                                 progress_user_data := user_data\<rparr>\<rparr>))"



text \<open>
  \<open>ftp_client_download\<close>. \<open>fopen(local_path, "wb")\<close> succeeds where the world says the
  path is writable, and leaves an empty file; the engine's write callback stores the
  delivered bytes in it; \<open>remove\<close> deletes the file (its result is not looked at by the
  source, and the model takes it to succeed).
\<close>

definition ftp_client_download ::
  "world \<Rightarrow> engine \<Rightarrow> ftp_client_t option \<Rightarrow> string option \<Rightarrow> string option
     \<Rightarrow> (ftp_error_t \<times> ftp_client_t option \<times> world) option" where
  "ftp_client_download w e client remote_path local_path =
     (case (client, local_path, remote_path) of
        (Some c, Some lp, Some rp) \<Rightarrow>
          if curl c = None then Some (FTP_ERROR_INVALID_PARAM, client, w)
          else if \<not> writable w lp
          then Some (FTP_ERROR_FILE_IO, Some (set_error (''Cannot create local file: '' @ lp) c),
                     log_event (Fopen lp ''wb'' False) w)
          else
            (let w1 = log_event (Fopen lp ''wb'' True) (w\<lparr>files := (files w)(lp \<mapsto> [])\<rparr>);
                 c0 = c\<lparr>curl := Some []\<rparr>
             in case build_ftp_url c0 (Some rp) FTP_MAX_URL_LENGTH of
                  None \<Rightarrow> None
                | Some (Inl result) \<Rightarrow>
                    Some (result, Some (set_error ''Remote path too long'' c0),
                          log_event (Fclose lp) w1)
                | Some (Inr url) \<Rightarrow>
                    let h = setup_curl_common c0 [CURLOPT_URL url]
                              @ [CURLOPT_WRITEFUNCTION_file, CURLOPT_WRITEDATA_file lp];
                        c1 = c0\<lparr>curl := Some h\<rparr>
                    in (case curl_easy_perform c1 h e of
                          None \<Rightarrow> None
                        | Some res \<Rightarrow>
                            let w2 = log_event (Fclose lp)
                                       (log_event (Perform h res)
                                          (w1\<lparr>files := (files w1)(lp \<mapsto> delivered e)\<rparr>))
                            in if res \<noteq> CURLE_OK
                               then
                                 (let c2 = set_error (''Download failed: '' @ strerror e res) c1;
                                      w3 = log_event (Remove lp)
                                             (w2\<lparr>files := (files w2)(lp := None)\<rparr>)
                                  in if res = CURLE_REMOTE_FILE_NOT_FOUND
                                     then Some (FTP_ERROR_FILE_NOT_FOUND, Some c2, w3)
                                     else Some (FTP_ERROR_TRANSFER, Some c2, w3))
                               else Some (FTP_OK, Some c1, w2)))
      | _ \<Rightarrow> Some (FTP_ERROR_INVALID_PARAM, client, w))"






definition ftp_client_rename ::
  "bool \<Rightarrow> bool \<Rightarrow> world \<Rightarrow> engine \<Rightarrow> ftp_client_t option \<Rightarrow> string option \<Rightarrow> string option
     \<Rightarrow> (ftp_error_t \<times> ftp_client_t option \<times> world) option" where
  "ftp_client_rename append1_ok append2_ok w e client old_path new_path =
     (case (client, old_path, new_path) of
        (Some c, Some old, Some new) \<Rightarrow>
          if curl c = None then Some (FTP_ERROR_INVALID_PARAM, client, w)
          else
            (let cmd1 = snprintf 512 (''RNFR '' @ (if starts_with_slash old then [] else ''/'') @ old);
                 cmd2 = snprintf 512 (''RNTO '' @ (if starts_with_slash new then [] else ''/'') @ new);
                 commands = curl_slist_append append1_ok None cmd1;
                 commands = curl_slist_append append2_ok commands cmd2
             in ftp_client_execute_simple_command w e client commands ''Rename failed'')
      | _ \<Rightarrow> Some (FTP_ERROR_INVALID_PARAM, client, w))"

text \<open>
  \<open>ftp_client_get_filesize\<close>. The out-pointer \<open>size\<close> is \<open>None\<close> when \<open>NULL\<close> and
  otherwise holds the value it points to; the last component of the result is that value
  after the call. The memory buffer is local to the call and freed before it returns.
\<close>

definition ftp_client_get_filesize ::
  "world \<Rightarrow> engine \<Rightarrow> ftp_client_t option \<Rightarrow> string option \<Rightarrow> int option
     \<Rightarrow> (ftp_error_t \<times> ftp_client_t option \<times> world \<times> int option) option" where
  "ftp_client_get_filesize w e client remote_path size_ptr =
     (case (client, remote_path, size_ptr) of
        (Some c, Some rp, Some old_size) \<Rightarrow>
          if curl c = None then Some (FTP_ERROR_INVALID_PARAM, client, w, size_ptr)
          else
            (let c0 = c\<lparr>curl := Some []\<rparr> in
             case build_ftp_url c0 (Some rp) FTP_MAX_URL_LENGTH of
               None \<Rightarrow> None
             | Some (Inl result) \<Rightarrow>
                 Some (result, Some (set_error ''Remote path too long'' c0), w, size_ptr)
             | Some (Inr url) \<Rightarrow>
                 let h = setup_curl_common c0 [CURLOPT_URL url]
                           @ [CURLOPT_NOBODY 1, CURLOPT_FILETIME 1, CURLOPT_HEADER 1,
                              CURLOPT_WRITEFUNCTION_memory, CURLOPT_WRITEDATA_buffer];
                     c1 = c0\<lparr>curl := Some h\<rparr>
                 in (case curl_easy_perform c1 h e of
                       None \<Rightarrow> None
                     | Some res \<Rightarrow>
                         let w1 = log_event (Perform h res) w
                         in if res \<noteq> CURLE_OK
                            then Some (FTP_ERROR_TRANSFER,
                                       Some (set_error (''Get file size failed: '' @ strerror e res) c1),
                                       w1, size_ptr)
                            else if info_result e = CURLE_OK \<and> content_length e \<ge> 0
                            then Some (FTP_OK, Some c1, w1, Some (content_length e))
                            else Some (FTP_ERROR_TRANSFER,
                                       Some (set_error ''Could not retrieve file size'' c1),
                                       w1, size_ptr)))
      | _ \<Rightarrow> Some (FTP_ERROR_INVALID_PARAM, client, w, size_ptr))"


subsection \<open>Notions used to state the properties\<close>

text \<open>
  Whether the registered observer returns, on one of the engine's progress reports, a
  value that makes the engine abort, and the result \<open>curl_easy_perform\<close> then has for a
  handle prepared by \<open>setup_curl_common\<close> (lemma \<open>perform_after_setup\<close> below).
\<close>

definition observer_aborts :: "ftp_client_t \<Rightarrow> engine \<Rightarrow> bool" where
  "observer_aborts client e =
     (case progress_callback (config client) of
        None \<Rightarrow> False
      | Some cb \<Rightarrow>
          list_ex (\<lambda>(dltotal, dlnow, ultotal, ulnow).
                     aborting e
                       (cb (progress_user_data (config client)) (real_of_int dltotal)
                          (real_of_int dlnow) (real_of_int ultotal) (real_of_int ulnow)))
                  (ticks e))"

definition engine_result :: "ftp_client_t \<Rightarrow> engine \<Rightarrow> CURLcode" where
  "engine_result client e =
     (if observer_aborts client e then CURLE_ABORTED_BY_CALLBACK else outcome e)"

text \<open>The command list of a handle (the last \<open>CURLOPT_QUOTE\<close> set on it).\<close>

primrec quote_of :: "curlopt list \<Rightarrow> string list \<Rightarrow> string list" where
  "quote_of [] d = d"
| "quote_of (opt # opts) d = quote_of opts (case opt of CURLOPT_QUOTE cmds \<Rightarrow> cmds | _ \<Rightarrow> d)"

text \<open>A well-formed buffer: no block and capacity 0, or a block of \<open>capacity\<close> bytes; the
  size is within the capacity. The buffer \<open>{0}\<close> the callers start from is well-formed.\<close>

definition buffer_ok :: "ftp_memory_buffer_t \<Rightarrow> bool" where
  "buffer_ok mem =
     (unat (size_m mem) \<le> unat (capacity mem)
      \<and> (case data mem of
            None \<Rightarrow> capacity mem = 0
          | Some blk \<Rightarrow> length blk = unat (capacity mem)))"

text \<open>Concrete inputs for the examples: the client \<open>ftp_client_create\<close> returns, after
  \<open>ftp_client_set_host(client, "ftp.example.com", 21)\<close>; a file system with one local
  file; an engine run with one progress report.\<close>

definition example_client :: ftp_client_t where
  "example_client =
     \<lparr>curl = Some [],
      config = \<lparr>host = Some ''ftp.example.com'', port = 21, username = Some ''anonymous'',
                password = Some ''user@example.com'', mode = FTP_MODE_PASSIVE,
                ssl_mode = FTP_SSL_NONE, verify_ssl = 1, timeout = 60, connect_timeout = 30,
                verbose = 0, progress_callback = None, progress_user_data = 0\<rparr>,
      last_error = []\<rparr>"

definition example_world :: world where
  "example_world =
     \<lparr>files = [''local.bin'' \<mapsto> [1, 2, 3]], writable = (\<lambda>p. p = ''out.bin''), trace = []\<rparr>"

definition example_engine :: "CURLcode \<Rightarrow> engine" where
  "example_engine res =
     \<lparr>ticks = [(0, 0, 100, 10)], delivered = [7, 7], outcome = res,
      strerror = (\<lambda>_. ''engine error''), info_result = CURLE_OK, content_length = 3,
      continue_known = True, memory_data = Some ''listing''\<rparr>"

definition cancelling_client :: ftp_client_t where
  "cancelling_client =
     example_client\<lparr>config := (config example_client)
       \<lparr>progress_callback := Some (\<lambda>user_data dltotal dlnow ultotal ulnow. 1)\<rparr>\<rparr>"


text \<open>A buffer holding "abc" in a block of four bytes.\<close>

definition example_buffer :: ftp_memory_buffer_t where
  "example_buffer = \<lparr>data = Some [97, 98, 99, 0], size_m = 3, capacity = 4\<rparr>"

section \<open>Properties\<close>

lemmas curl_codes =
  CURLE_OK_def CURLE_OPERATION_TIMEDOUT_def CURLE_ABORTED_BY_CALLBACK_def
  CURLE_LOGIN_DENIED_def CURLE_REMOTE_FILE_NOT_FOUND_def

subsection \<open>The engine's result for a prepared handle\<close>

lemma get_noprogress_append:
  "get_noprogress (xs @ ys) d = get_noprogress ys (get_noprogress xs d)"
  by (induction xs arbitrary: d) simp_all

lemma has_xferinfo_append:
  "has_xferinfo (xs @ ys) d = has_xferinfo ys (has_xferinfo xs d)"
  by (induction xs arbitrary: d) simp_all

lemma get_xferinfodata_append:
  "get_xferinfodata (xs @ ys) d = get_xferinfodata ys (get_xferinfodata xs d)"
  by (induction xs arbitrary: d) simp_all

lemma perform_after_setup:
  assumes "\<And>d. get_noprogress rest d = d" and "\<And>d. has_xferinfo rest d = d"
    and "\<And>d. get_xferinfodata rest d = d"
    and "config c1 = config c" and "config c0 = config c"
  shows "curl_easy_perform c1 (setup_curl_common c0 h0 @ rest) e = Some (engine_result c e)"
  using assms
  by (auto simp: curl_easy_perform_def setup_curl_common_def engine_result_def
      observer_aborts_def progress_callback_wrapper_def get_noprogress_append
      has_xferinfo_append get_xferinfodata_append split: option.splits)

lemma build_ftp_url_curl: "build_ftp_url (c\<lparr>curl := x\<rparr>) rp n = build_ftp_url c rp n"
  by (simp add: build_ftp_url_def Let_def split: option.splits)

subsection \<open>Facts about the C library helpers\<close>

lemma starts_with_slash_replicate:
  "starts_with_slash (replicate n c) = (0 < n \<and> c = CHR ''/'')"
  by (cases n) simp_all



lemma example_show_port: "show_int 21 = ''21''"
  by (simp add: show_int_def dec_digits.simps digit_char_def)

lemma quote_of_append: "quote_of (xs @ ys) d = quote_of ys (quote_of xs d)"
  by (induction xs arbitrary: d) simp_all

subsection \<open>What the transfer operations return once the URL is built\<close>

lemma download_result:
  assumes "curl c \<noteq> None" and "writable w lp"
    and "build_ftp_url c (Some rp) FTP_MAX_URL_LENGTH = Some (Inr url)"
  shows "\<exists>c' w' h. ftp_client_download w e (Some c) (Some rp) (Some lp) =
           Some (if engine_result c e = CURLE_OK then FTP_OK
                 else if engine_result c e = CURLE_REMOTE_FILE_NOT_FOUND
                 then FTP_ERROR_FILE_NOT_FOUND
                 else FTP_ERROR_TRANSFER, Some c', w')
         \<and> files w' lp = (if engine_result c e = CURLE_OK then Some (delivered e) else None)
         \<and> trace w' = trace w @ [Fopen lp ''wb'' True, Perform h (engine_result c e), Fclose lp]
                          @ (if engine_result c e = CURLE_OK then [] else [Remove lp])"
  using assms
  by (simp add: ftp_client_download_def Let_def perform_after_setup log_event_def
      build_ftp_url_curl)


lemma filesize_result:
  assumes "curl c \<noteq> None"
    and "build_ftp_url c (Some rp) FTP_MAX_URL_LENGTH = Some (Inr url)"
  shows "\<exists>c' w' h. ftp_client_get_filesize w e (Some c) (Some rp) (Some old) =
           Some (if engine_result c e = CURLE_OK \<and> info_result e = CURLE_OK
                    \<and> 0 \<le> content_length e
                 then FTP_OK else FTP_ERROR_TRANSFER, Some c', w',
                 if engine_result c e = CURLE_OK \<and> info_result e = CURLE_OK
                    \<and> 0 \<le> content_length e
                 then Some (content_length e) else Some old)
         \<and> trace w' = trace w @ [Perform h (engine_result c e)]"
  using assms
  by (simp add: ftp_client_get_filesize_def Let_def perform_after_setup log_event_def
      build_ftp_url_curl)

lemma filesize_never_not_found:
  "map_option fst (ftp_client_get_filesize w e client rp sp) \<noteq> Some FTP_ERROR_FILE_NOT_FOUND"
  by (auto simp: ftp_client_get_filesize_def Let_def build_ftp_url_def
      split: option.splits sum.splits if_splits)




lemma simple_command_result:
  assumes "curl c \<noteq> None"
    and "build_ftp_url c (Some ''/'') FTP_MAX_URL_LENGTH = Some (Inr url)"
  shows "\<exists>c' w'. ftp_client_execute_simple_command w e (Some c) (Some cmds) prefix =
           Some (if engine_result c e = CURLE_OK then FTP_OK else FTP_ERROR_TRANSFER,
                 Some c', w')
         \<and> (\<exists>h. trace w' = trace w @ [Perform h (engine_result c e)]
                \<and> quote_of h [] = cmds)"
proof -
  have q: "quote_of (setup_curl_common c0 h0) d = quote_of h0 d" for c0 h0 d
    by (simp add: setup_curl_common_def quote_of_append)
  show ?thesis
    using assms
    by (simp add: ftp_client_execute_simple_command_def Let_def perform_after_setup
        log_event_def build_ftp_url_curl quote_of_append q)
qed





subsection \<open>The example inputs\<close>

lemma example_client_made:
  "ftp_client_set_host True (ftp_client_create True True True True)
     (Some ''ftp.example.com'') 21 = (FTP_OK, Some example_client)"
  by (simp add: ftp_client_set_host_def ftp_client_create_def ftp_client_init_config_def
      strdup_def example_client_def zero_config_def)

lemma cancelling_client_made:
  "ftp_client_set_progress_callback (Some example_client)
     (Some (\<lambda>user_data dltotal dlnow ultotal ulnow. 1)) 0 = Some cancelling_client"
  by (simp add: ftp_client_set_progress_callback_def cancelling_client_def example_client_def)

lemma example_url:
  "build_ftp_url example_client (Some ''/missing.txt'') FTP_MAX_URL_LENGTH
     = Some (Inr ''ftp://ftp.example.com:21/missing.txt'')"
  by (simp add: build_ftp_url_def example_client_def FTP_MAX_URL_LENGTH_def snprintf_def
      url_text_def show_int_def dec_digits.simps digit_char_def)

lemma example_client_curl: "curl example_client \<noteq> None"
  by (simp add: example_client_def)

lemma example_engine_result: "engine_result example_client (example_engine res) = res"
  by (simp add: engine_result_def observer_aborts_def example_client_def example_engine_def)

subsection \<open>C1: the not-found error\<close>

text \<open>
  C1 says that both \<open>ftp_client_download\<close> and \<open>ftp_client_get_filesize\<close> return
  \<open>FTP_ERROR_FILE_NOT_FOUND\<close> for a remote path that does not exist. The engine reports
  such a path with \<open>CURLE_REMOTE_FILE_NOT_FOUND\<close>. Only the download tests for that
  code. At the concrete call below the size query returns \<open>FTP_ERROR_TRANSFER\<close>.
\<close>

theorem filesize_not_found_counterexample:
  "map_option fst
     (ftp_client_get_filesize example_world (example_engine CURLE_REMOTE_FILE_NOT_FOUND)
        (Some example_client) (Some ''/missing.txt'') (Some 0))
   = Some FTP_ERROR_TRANSFER"
  using filesize_result [OF example_client_curl example_url, of example_world
      "example_engine CURLE_REMOTE_FILE_NOT_FOUND" 0]
  by (auto simp: example_engine_result curl_codes)

text \<open>
  C1, amended: when the URL is built and the transfer fails, a download whose local file
  could be created returns \<open>FTP_ERROR_FILE_NOT_FOUND\<close> if the engine reports
  \<open>CURLE_REMOTE_FILE_NOT_FOUND\<close> and \<open>FTP_ERROR_TRANSFER\<close> for every other failure; the
  size query returns \<open>FTP_ERROR_TRANSFER\<close> for every failure of the engine, that one
  included, and no call of it, whatever its arguments, returns
  \<open>FTP_ERROR_FILE_NOT_FOUND\<close>.
\<close>

theorem not_found_download_only:
  assumes "curl c \<noteq> None"
    and "build_ftp_url c (Some rp) FTP_MAX_URL_LENGTH = Some (Inr url)"
    and "engine_result c e \<noteq> CURLE_OK"
  shows "(writable w lp \<longrightarrow>
            map_option fst (ftp_client_download w e (Some c) (Some rp) (Some lp))
              = Some (if engine_result c e = CURLE_REMOTE_FILE_NOT_FOUND
                      then FTP_ERROR_FILE_NOT_FOUND else FTP_ERROR_TRANSFER))
       \<and> map_option fst (ftp_client_get_filesize w e (Some c) (Some rp) (Some old))
              = Some FTP_ERROR_TRANSFER
       \<and> map_option fst (ftp_client_get_filesize any_w any_e any_client any_path any_size)
              \<noteq> Some FTP_ERROR_FILE_NOT_FOUND"
proof (intro conjI impI)
  assume wr: "writable w lp"
  from download_result [OF assms(1) wr assms(2), of e] assms(3)
  show "map_option fst (ftp_client_download w e (Some c) (Some rp) (Some lp))
          = Some (if engine_result c e = CURLE_REMOTE_FILE_NOT_FOUND
                  then FTP_ERROR_FILE_NOT_FOUND else FTP_ERROR_TRANSFER)"
    by auto
next
  from filesize_result [OF assms(1) assms(2), of w e old] assms(3)
  show "map_option fst (ftp_client_get_filesize w e (Some c) (Some rp) (Some old))
          = Some FTP_ERROR_TRANSFER"
    by auto
next
  show "map_option fst (ftp_client_get_filesize any_w any_e any_client any_path any_size)
          \<noteq> Some FTP_ERROR_FILE_NOT_FOUND"
    by (rule filesize_never_not_found)
qed

theorem not_found_download_only_witness:
  "curl example_client \<noteq> None
   \<and> build_ftp_url example_client (Some ''/missing.txt'') FTP_MAX_URL_LENGTH
       = Some (Inr ''ftp://ftp.example.com:21/missing.txt'')
   \<and> engine_result example_client (example_engine CURLE_REMOTE_FILE_NOT_FOUND) \<noteq> CURLE_OK
   \<and> writable example_world ''out.bin''
   \<and> map_option fst
        (ftp_client_download example_world (example_engine CURLE_REMOTE_FILE_NOT_FOUND)
           (Some example_client) (Some ''/missing.txt'') (Some ''out.bin''))
       = Some FTP_ERROR_FILE_NOT_FOUND
   \<and> map_option fst
        (ftp_client_get_filesize example_world (example_engine CURLE_REMOTE_FILE_NOT_FOUND)
           (Some example_client) (Some ''/missing.txt'') (Some 0))
       = Some FTP_ERROR_TRANSFER
   \<and> map_option fst
        (ftp_client_get_filesize example_world (example_engine CURLE_OK)
           (Some example_client) (Some ''/missing.txt'') (Some 0))
       \<noteq> Some FTP_ERROR_FILE_NOT_FOUND"
proof -
  have ne: "engine_result example_client (example_engine CURLE_REMOTE_FILE_NOT_FOUND)
              \<noteq> CURLE_OK"
    by (simp add: example_engine_result curl_codes)
  from not_found_download_only [OF example_client_curl example_url ne,
      where w = example_world and lp = "''out.bin''" and old = 0
        and any_w = example_world and any_e = "example_engine CURLE_OK"
        and any_client = "Some example_client" and any_path = "Some ''/missing.txt''"
        and any_size = "Some 0"]
  show ?thesis
    by (simp add: example_client_curl example_url example_engine_result example_world_def
        curl_codes)
qed

subsection \<open>C2: a progress observer that asks to stop\<close>














subsection \<open>C3: the commands of \<open>ftp_client_rename\<close>\<close>

lemma rename_short_paths:
  assumes "curl c \<noteq> None"
    and "build_ftp_url c (Some ''/'') FTP_MAX_URL_LENGTH = Some (Inr url)"
    and "length ((if starts_with_slash old then [] else ''/'') @ old) \<le> 506"
    and "length ((if starts_with_slash new then [] else ''/'') @ new) \<le> 506"
  shows "\<exists>c' w'. ftp_client_rename True True w e (Some c) (Some old) (Some new) =
           Some (if engine_result c e = CURLE_OK then FTP_OK else FTP_ERROR_TRANSFER,
                 Some c', w')
         \<and> (\<exists>h. trace w' = trace w @ [Perform h (engine_result c e)]
                \<and> quote_of h [] =
                    [''RNFR '' @ (if starts_with_slash old then [] else ''/'') @ old,
                     ''RNTO '' @ (if starts_with_slash new then [] else ''/'') @ new])"
proof -
  have "ftp_client_rename True True w e (Some c) (Some old) (Some new) =
          ftp_client_execute_simple_command w e (Some c)
            (Some [''RNFR '' @ (if starts_with_slash old then [] else ''/'') @ old,
                   ''RNTO '' @ (if starts_with_slash new then [] else ''/'') @ new])
            ''Rename failed''"
    using assms(1,3,4)
    by (auto simp: ftp_client_rename_def Let_def curl_slist_append_def snprintf_def)
  with simple_command_result [OF assms(1,2)] show ?thesis by simp
qed

lemma example_root_url:
  "build_ftp_url example_client (Some ''/'') FTP_MAX_URL_LENGTH
     = Some (Inr ''ftp://ftp.example.com:21/'')"
  by (simp add: build_ftp_url_def example_client_def FTP_MAX_URL_LENGTH_def snprintf_def
      url_text_def example_show_port)

text \<open>
  C3 says that for all paths \<open>ftp_client_rename\<close> sends \<open>RNFR old\<close> and \<open>RNTO new\<close>,
  each path made absolute. Each command is formatted into 512 bytes, so a command longer
  than 511 characters is cut (lemma \<open>rename_short_paths\<close> covers the paths that fit). The
  code at an old path of 600 letters: the call succeeds and the first command handed to
  the engine names a path of 505 letters.
\<close>

theorem rename_truncates_long_path:
  "\<exists>c' w' h. ftp_client_rename True True example_world (example_engine CURLE_OK)
       (Some example_client) (Some (replicate 600 (CHR ''a''))) (Some ''/b.txt'')
     = Some (FTP_OK, Some c', w')
     \<and> trace w' = [Perform h CURLE_OK]
     \<and> quote_of h [] = [''RNFR /'' @ replicate 505 (CHR ''a''), ''RNTO /b.txt'']
     \<and> quote_of h [] \<noteq> [''RNFR /'' @ replicate 600 (CHR ''a''), ''RNTO /b.txt'']"
proof -
  have "ftp_client_rename True True example_world (example_engine CURLE_OK)
          (Some example_client) (Some (replicate 600 (CHR ''a''))) (Some ''/b.txt'') =
        ftp_client_execute_simple_command example_world (example_engine CURLE_OK)
          (Some example_client)
          (Some [''RNFR /'' @ replicate 505 (CHR ''a''), ''RNTO /b.txt''])
          ''Rename failed''"
    by (simp add: ftp_client_rename_def Let_def curl_slist_append_def snprintf_def
        starts_with_slash_replicate example_client_def)
  with simple_command_result [OF example_client_curl example_root_url,
      of example_world "example_engine CURLE_OK"
         "[''RNFR /'' @ replicate 505 (CHR ''a''), ''RNTO /b.txt'']" "''Rename failed''"]
  show ?thesis by (auto simp: example_engine_result example_world_def)
qed

subsection \<open>C4: the port given to \<open>ftp_client_set_host\<close>\<close>

lemma set_host_ignores_bad_port:
  "\<not> (0 < p \<and> p \<le> 65535) \<Longrightarrow>
     ftp_client_set_host True (Some c) (Some h) p
       = (FTP_OK, Some (c\<lparr>config := (config c)\<lparr>host := Some h\<rparr>\<rparr>))"
  by (auto simp: ftp_client_set_host_def strdup_def Let_def)

text \<open>
  C4 says that a port outside 1..65535 makes \<open>ftp_client_set_host\<close> return
  \<open>FTP_ERROR_INVALID_PARAM\<close>. The code at the ports 70000 and 0: the call returns
  \<open>FTP_OK\<close>, stores the host and keeps the port the client had.
\<close>

theorem set_host_port_out_of_range:
  "ftp_client_set_host True (Some example_client) (Some ''ftp.example.com'') 70000
     = (FTP_OK, Some example_client)
   \<and> ftp_client_set_host True (Some example_client) (Some ''ftp.example.com'') 0
     = (FTP_OK, Some example_client)"
  by (simp add: ftp_client_set_host_def strdup_def Let_def example_client_def)

subsection \<open>C5: the default configuration\<close>

text \<open>
  C5: \<open>ftp_client_init_config\<close>, and with it \<open>ftp_client_create\<close>, sets port 21, user
  name "anonymous", password "user@example.com", passive mode, no TLS, certificate
  verification on, timeout 60, connect timeout 30, verbose off (allocations succeeding);
  the host and the progress observer are unset.
\<close>

theorem init_config_defaults:
  "ftp_client_init_config True True (Some cfg) =
     Some \<lparr>host = None, port = 21, username = Some ''anonymous'',
           password = Some ''user@example.com'', mode = FTP_MODE_PASSIVE,
           ssl_mode = FTP_SSL_NONE, verify_ssl = 1, timeout = 60, connect_timeout = 30,
           verbose = 0, progress_callback = None, progress_user_data = 0\<rparr>
   \<and> ftp_client_create True True True True =
     Some \<lparr>curl = Some [],
           config = \<lparr>host = None, port = 21, username = Some ''anonymous'',
             password = Some ''user@example.com'', mode = FTP_MODE_PASSIVE,
             ssl_mode = FTP_SSL_NONE, verify_ssl = 1, timeout = 60, connect_timeout = 30,
             verbose = 0, progress_callback = None, progress_user_data = 0\<rparr>,
           last_error = []\<rparr>"
  by (simp add: ftp_client_create_def ftp_client_init_config_def strdup_def)

subsection \<open>C6: relative remote paths\<close>

text \<open>
  C6 says that the URL built for a path without a leading slash equals the URL built for
  the path with the slash prepended. The size test of \<open>build_ftp_url\<close> counts the path
  as given: at the longest relative path that passes it, the path with the slash is
  refused.
\<close>

theorem boundary_path_counterexample:
  "build_ftp_url example_client (Some (replicate 2019 (CHR ''a''))) FTP_MAX_URL_LENGTH
     = Some (Inr (''ftp://ftp.example.com:21/'' @ replicate 2019 (CHR ''a'')))
   \<and> build_ftp_url example_client (Some (CHR ''/'' # replicate 2019 (CHR ''a''))) FTP_MAX_URL_LENGTH
     = Some (Inl FTP_ERROR_INVALID_PARAM)"
  by (simp add: build_ftp_url_def example_client_def FTP_MAX_URL_LENGTH_def snprintf_def
      url_text_def example_show_port starts_with_slash_replicate)

text \<open>
  C6, amended: for a remote path that does not begin with a slash, whenever a URL is built
  for the path with the slash prepended, the same URL is built for the path itself; and
  every URL built for the path is \<open>ftp://host:port/\<close> followed by the path, cut to the
  buffer.
\<close>

theorem relative_path_gets_slash:
  assumes "\<not> starts_with_slash p"
  shows "(build_ftp_url c (Some (CHR ''/'' # p)) n = Some (Inr u)
            \<longrightarrow> build_ftp_url c (Some p) n = Some (Inr u))
       \<and> (build_ftp_url c (Some p) n = Some (Inr u)
            \<longrightarrow> (\<exists>h. host (config c) = Some h
                  \<and> u = snprintf n (''ftp://'' @ h @ '':'' @ show_int (port (config c))
                                      @ ''/'' @ p)))"
  using assms
  by (auto simp: build_ftp_url_def Let_def url_text_def split: option.splits if_splits)

theorem relative_path_gets_slash_witness:
  "\<not> starts_with_slash ''missing.txt''
   \<and> build_ftp_url example_client (Some (CHR ''/'' # ''missing.txt'')) FTP_MAX_URL_LENGTH
       = Some (Inr ''ftp://ftp.example.com:21/missing.txt'')
   \<and> build_ftp_url example_client (Some ''missing.txt'') FTP_MAX_URL_LENGTH
       = Some (Inr ''ftp://ftp.example.com:21/missing.txt'')"
proof -
  have r: "\<not> starts_with_slash ''missing.txt''" by simp
  from relative_path_gets_slash [OF r, of example_client FTP_MAX_URL_LENGTH
      "''ftp://ftp.example.com:21/missing.txt''"] example_url r
  show ?thesis by simp
qed

subsection \<open>C7: a failed download removes the local file\<close>

text \<open>
  C7: when the local file of a download was created and the transfer the engine then
  performs fails, the call returns an error, and before that it closes the file and
  removes it: the path holds no file afterwards.
\<close>

theorem download_failure_removes_local_file:
  assumes "curl c \<noteq> None" and "writable w lp"
    and "build_ftp_url c (Some rp) FTP_MAX_URL_LENGTH = Some (Inr url)"
    and "engine_result c e \<noteq> CURLE_OK"
  shows "\<exists>r c' w' h. ftp_client_download w e (Some c) (Some rp) (Some lp) = Some (r, Some c', w')
           \<and> r \<noteq> FTP_OK \<and> files w' lp = None
           \<and> trace w' = trace w @ [Fopen lp ''wb'' True, Perform h (engine_result c e),
                                    Fclose lp, Remove lp]"
  using download_result [OF assms(1,2,3), of e] assms(4)
  by (auto split: if_splits)

theorem download_failure_removes_local_file_witness:
  "curl example_client \<noteq> None \<and> writable example_world ''out.bin''
   \<and> build_ftp_url example_client (Some ''/missing.txt'') FTP_MAX_URL_LENGTH
       = Some (Inr ''ftp://ftp.example.com:21/missing.txt'')
   \<and> engine_result example_client (example_engine 7) \<noteq> CURLE_OK
   \<and> (\<exists>r c' w' h. ftp_client_download example_world (example_engine 7) (Some example_client)
           (Some ''/missing.txt'') (Some ''out.bin'') = Some (r, Some c', w')
           \<and> r \<noteq> FTP_OK \<and> files w' ''out.bin'' = None
           \<and> trace w' = trace example_world @ [Fopen ''out.bin'' ''wb'' True,
                 Perform h (engine_result example_client (example_engine 7)),
                 Fclose ''out.bin'', Remove ''out.bin''])"
proof -
  have wr: "writable example_world ''out.bin''" by (simp add: example_world_def)
  have ne: "engine_result example_client (example_engine 7) \<noteq> CURLE_OK"
    by (simp add: example_engine_result curl_codes)
  from download_failure_removes_local_file [OF example_client_curl wr example_url ne]
    example_client_curl wr example_url ne
  show ?thesis by blast
qed

subsection \<open>C8: a remote path too long for the URL buffer\<close>






subsection \<open>C9: the buffer of \<open>write_memory_callback\<close>\<close>

text \<open>The doubling loop ends when the size needed is at most \<open>2^63\<close>; started from 0 it
  never ends, which is where a capacity of \<open>2^63\<close> bytes leads.\<close>

lemma grow_capacity_terminates:
  fixes needed nc :: size_t
  assumes "unat needed \<le> 2 ^ 63" and "nc \<noteq> 0"
  shows "\<exists>c. grow_capacity needed nc = Some c \<and> needed \<le> c \<and> nc \<le> c"
  using assms
proof (induction "unat needed - unat nc" arbitrary: nc rule: less_induct)
  case less
  show ?case
  proof (cases "nc < needed")
    case False
    then show ?thesis by (subst grow_capacity.simps) simp
  next
    case True
    then have lt: "unat nc < unat needed" by (simp add: word_less_nat_alt)
    from less.prems(2) have pos: "0 < unat nc" by (simp add: unat_gt_0)
    have small: "unat nc * unat (2 :: size_t) < 2 ^ LENGTH(64)"
      using lt less.prems(1) by simp
    then have dbl: "unat (nc * 2) = unat nc * 2"
      using unat_mult_lem [of nc 2] by simp
    with pos have nz: "nc * 2 \<noteq> 0" by (metis mult_is_0 unat_0 zero_neq_numeral less_numeral_extra(3))
    have "unat needed - unat (nc * 2) < unat needed - unat nc"
      using dbl lt pos by simp
    from less.hyps [OF this less.prems(1) nz]
    obtain c where c: "grow_capacity needed (nc * 2) = Some c" "needed \<le> c" "nc * 2 \<le> c"
      by blast
    from c(3) dbl have "nc \<le> c" by (simp add: word_le_nat_alt)
    with c True show ?thesis by (subst grow_capacity.simps) simp
  qed
qed


lemma store_chunk_ok:
  assumes d: "data m = Some blk"
    and room: "unat (size_m m) + unat r < length blk"
    and src: "unat r \<le> length contents"
    and nowrap: "unat (size_m m) + unat r < 2 ^ 64"
  shows "\<exists>blk'. store_chunk contents r m
                  = Returns (r, m\<lparr>data := Some blk', size_m := size_m m + r\<rparr>)
     \<and> length blk' = length blk
     \<and> blk' ! (unat (size_m m) + unat r) = 0
     \<and> take (unat (size_m m)) blk' = take (unat (size_m m)) blk
     \<and> take (unat r) (drop (unat (size_m m)) blk') = take (unat r) contents"
proof -
  have sum: "unat (size_m m + r) = unat (size_m m) + unat r"
    using nowrap unat_add_lem [of "size_m m" r] by simp
  let ?S = "unat (size_m m)" and ?R = "unat r"
  let ?copied = "take ?S blk @ take ?R contents @ drop (?S + ?R) blk"
  have len: "length ?copied = length blk" using room src by simp
  have eq: "store_chunk contents r m
              = Returns (r, m\<lparr>data := Some (?copied[?S + ?R := 0]), size_m := size_m m + r\<rparr>)"
    using d room src sum by (simp add: store_chunk_def Let_def)
  have nth: "(?copied[?S + ?R := 0]) ! (?S + ?R) = 0"
    using room len by simp
  have pre: "take ?S (?copied[?S + ?R := 0]) = take ?S blk"
    using room by simp
  have mid: "take ?R (drop ?S (?copied[?S + ?R := 0])) = take ?R contents"
    using room src by (simp add: drop_update_swap)
  from eq len nth pre mid show ?thesis by (intro exI [of _ "?copied[?S + ?R := 0]"]) simp
qed

lemma realloc_prefix:
  assumes "realloc True junk (Some blk) n = Some blk'" and "k \<le> length blk" and "k \<le> unat n"
  shows "take k blk' = take k blk"
proof -
  from assms(1) have b: "blk' = map (\<lambda>i. if i < length blk then blk ! i else junk i) [0 ..< unat n]"
    by (simp add: realloc_def)
  show ?thesis
  proof (rule nth_equalityI)
    show "length (take k blk') = length (take k blk)" using assms(2,3) b by simp
  next
    fix i assume "i < length (take k blk')"
    then have "i < k" and "i < unat n" and "i < length blk" using assms(2,3) b by simp_all
    then show "take k blk' ! i = take k blk ! i" using b by simp
  qed
qed

lemma realloc_length: "realloc True junk old n = Some blk' \<Longrightarrow> length blk' = unat n"
  by (auto simp: realloc_def)

lemma grow_capacity_from_zero:
  assumes "grow_capacity needed nc = Some c"
  shows "nc = 0 \<longrightarrow> needed = 0"
  by (rule grow_capacity.raw_induct
        [where P = "\<lambda>needed nc c. nc = 0 \<longrightarrow> needed = 0", OF _ assms])
     (auto split: if_splits simp: word_gt_0)

lemma grow_capacity_zero_diverges: "needed \<noteq> 0 \<Longrightarrow> grow_capacity needed 0 = None"
  using grow_capacity_from_zero [of needed 0] by (cases "grow_capacity needed 0") auto

lemma wrap64: "(18446744073709551616 :: size_t) = 0"
  by simp

lemma capacity_loop_diverges:
  "write_memory_callback True (\<lambda>i. 0) [65] 1 1
     \<lparr>data = Some (replicate (2 ^ 63) 0), size_m = 2 ^ 63 - 1, capacity = 2 ^ 63\<rparr>
   = Diverges"
  by (simp add: write_memory_callback_def Let_def grow_capacity_zero_diverges wrap64)

text \<open>
  C9 says that the callback returns 0 exactly when reallocation fails, and that after
  every call that returns \<open>size * nmemb\<close> the buffer is terminated at \<open>size\<close> with
  \<open>size + 1 \<le> capacity\<close>. A call with no bytes (\<open>nmemb = 0\<close>) returns 0, which is
  \<open>size * nmemb\<close>, in both cases: below without any reallocation on a buffer with room,
  and with a failed reallocation on the empty buffer, whose data stays \<open>NULL\<close>.
\<close>

theorem zero_bytes_counterexample:
  "write_memory_callback True (\<lambda>i. 0) [] 1 0 example_buffer = Returns (0, example_buffer)
   \<and> write_memory_callback False (\<lambda>i. 0) [] 1 0 \<lparr>data = None, size_m = 0, capacity = 0\<rparr>
       = Returns (0, \<lparr>data = None, size_m = 0, capacity = 0\<rparr>)"
  by (simp add: write_memory_callback_def store_chunk_def example_buffer_def Let_def
      grow_capacity.simps realloc_def FTP_BUFFER_SIZE_def)

text \<open>
  C9, amended: for a well-formed buffer, a chunk of \<open>size * nmemb\<close> readable bytes and
  sizes that stay within \<open>2^63\<close>: when reallocation is needed and fails the callback
  returns 0 and leaves data, size and capacity as they were; otherwise it returns
  \<open>size * nmemb\<close>, and afterwards the buffer is well-formed, \<open>data[size]\<close> is 0, the size
  has grown by exactly \<open>size * nmemb\<close>, \<open>size + 1 \<le> capacity\<close>, the bytes stored before
  are kept and the chunk follows them. So it returns 0 exactly when reallocation fails
  or \<open>size * nmemb\<close> is 0.
\<close>

theorem write_memory_callback_buffer:
  assumes ok: "buffer_ok m"
    and fit: "unat (size_m m) + unat sz * unat nmemb + 1 \<le> 2 ^ 63"
    and src: "unat sz * unat nmemb \<le> length contents"
  shows "(if capacity m < size_m m + sz * nmemb + 1 \<and> \<not> realloc_ok
          then write_memory_callback realloc_ok junk contents sz nmemb m = Returns (0, m)
          else \<exists>m' blk'.
                 write_memory_callback realloc_ok junk contents sz nmemb m
                   = Returns (sz * nmemb, m')
                 \<and> buffer_ok m' \<and> data m' = Some blk'
                 \<and> size_m m' = size_m m + sz * nmemb
                 \<and> blk' ! unat (size_m m') = 0
                 \<and> unat (size_m m') + 1 \<le> unat (capacity m')
                 \<and> (\<forall>blk. data m = Some blk
                       \<longrightarrow> take (unat (size_m m)) blk' = take (unat (size_m m)) blk)
                 \<and> take (unat (sz * nmemb)) (drop (unat (size_m m)) blk')
                     = take (unat (sz * nmemb)) contents)
       \<and> ((\<exists>m'. write_memory_callback realloc_ok junk contents sz nmemb m = Returns (0, m'))
            \<longleftrightarrow> (capacity m < size_m m + sz * nmemb + 1 \<and> \<not> realloc_ok) \<or> sz * nmemb = 0)"
proof -
  have main: "(if capacity m < size_m m + sz * nmemb + 1 \<and> \<not> realloc_ok
          then write_memory_callback realloc_ok junk contents sz nmemb m = Returns (0, m)
          else \<exists>m' blk'.
                 write_memory_callback realloc_ok junk contents sz nmemb m
                   = Returns (sz * nmemb, m')
                 \<and> buffer_ok m' \<and> data m' = Some blk'
                 \<and> size_m m' = size_m m + sz * nmemb
                 \<and> blk' ! unat (size_m m') = 0
                 \<and> unat (size_m m') + 1 \<le> unat (capacity m')
                 \<and> (\<forall>blk. data m = Some blk
                       \<longrightarrow> take (unat (size_m m)) blk' = take (unat (size_m m)) blk)
                 \<and> take (unat (sz * nmemb)) (drop (unat (size_m m)) blk')
                     = take (unat (sz * nmemb)) contents)"
  proof -
  let ?r = "sz * nmemb"
  let ?need = "size_m m + ?r + 1"
  have r: "unat ?r = unat sz * unat nmemb"
  proof -
    have "unat sz * unat nmemb < 2 ^ LENGTH(64)" using fit by simp
    then show ?thesis using unat_mult_lem [of sz nmemb] by simp
  qed
  have sr: "unat (size_m m + ?r) = unat (size_m m) + unat ?r"
  proof -
    have "unat (size_m m) + unat ?r < 2 ^ LENGTH(64)" using fit r by simp
    then show ?thesis using unat_add_lem [of "size_m m" ?r] by simp
  qed
  have need: "unat ?need = unat (size_m m) + unat ?r + 1"
  proof -
    have "unat (size_m m + ?r) + unat (1 :: size_t) < 2 ^ LENGTH(64)" using fit r sr by simp
    then show ?thesis using unat_add_lem [of "size_m m + ?r" 1] sr by simp
  qed
  have need63: "unat ?need \<le> 2 ^ 63" using need r fit by simp
  have nowrap: "unat (size_m m) + unat ?r < 2 ^ 64" using fit r by simp
  have src': "unat ?r \<le> length contents" using src r by simp
  show ?thesis
  proof (cases "capacity m < ?need")
    case False
    then have room: "unat (size_m m) + unat ?r + 1 \<le> unat (capacity m)"
      using need by (simp add: word_less_nat_alt)
    with ok obtain blk where d: "data m = Some blk" and len: "length blk = unat (capacity m)"
      by (auto simp: buffer_ok_def split: option.splits)
    have room': "unat (size_m m) + unat ?r < length blk" using room len by simp
    from store_chunk_ok [OF d room' src' nowrap]
    obtain blk' where st: "store_chunk contents ?r m
                  = Returns (?r, m\<lparr>data := Some blk', size_m := size_m m + ?r\<rparr>)"
      and l': "length blk' = length blk"
      and z: "blk' ! (unat (size_m m) + unat ?r) = 0"
      and pre: "take (unat (size_m m)) blk' = take (unat (size_m m)) blk"
      and mid: "take (unat ?r) (drop (unat (size_m m)) blk') = take (unat ?r) contents"
      by blast
    have call: "write_memory_callback realloc_ok junk contents sz nmemb m
                  = Returns (?r, m\<lparr>data := Some blk', size_m := size_m m + ?r\<rparr>)"
      using False st by (simp add: write_memory_callback_def Let_def)
    have "buffer_ok (m\<lparr>data := Some blk', size_m := size_m m + ?r\<rparr>)"
      using l' len room sr by (simp add: buffer_ok_def)
    with call z pre mid sr room d False show ?thesis by simp
  next
    case True
    let ?start = "if capacity m = 0 then FTP_BUFFER_SIZE else capacity m * 2"
    have cap: "unat (capacity m) < unat ?need" using True by (simp add: word_less_nat_alt)
    have start: "?start \<noteq> 0"
    proof (cases "capacity m = 0")
      case True
      then show ?thesis by (simp add: FTP_BUFFER_SIZE_def)
    next
      case False
      then have pos: "0 < unat (capacity m)" by (simp add: unat_gt_0)
      have "unat (capacity m) * unat (2 :: size_t) < 2 ^ LENGTH(64)"
        using cap need63 by simp
      then have "unat (capacity m * 2) = unat (capacity m) * 2"
        using unat_mult_lem [of "capacity m" 2] by simp
      with pos have "capacity m * 2 \<noteq> 0" by (metis less_numeral_extra(3) mult_is_0 unat_0 zero_neq_numeral)
      with False show ?thesis by simp
    qed
    from grow_capacity_terminates [OF need63 start]
    obtain c where g: "grow_capacity ?need ?start = Some c" and nc: "?need \<le> c" by blast
    show ?thesis
    proof (cases realloc_ok)
      case False
      then show ?thesis
        using True g by (simp add: write_memory_callback_def Let_def realloc_def)
    next
      case ro: True
      obtain new where re: "realloc True junk (data m) c = Some new"
        by (simp add: realloc_def)
      let ?m1 = "m\<lparr>data := Some new, capacity := c\<rparr>"
      have lnew: "length new = unat c" using re by (rule realloc_length)
      have room: "unat (size_m m) + unat ?r + 1 \<le> unat c"
        using nc need by (simp add: word_le_nat_alt)
      have d1: "data ?m1 = Some new" by simp
      have room1: "unat (size_m ?m1) + unat ?r < length new" using room lnew by simp
      have nowrap1: "unat (size_m ?m1) + unat ?r < 2 ^ 64" using nowrap by simp
      from store_chunk_ok [OF d1 room1 src' nowrap1]
      obtain blk' where st: "store_chunk contents ?r ?m1
                  = Returns (?r, ?m1\<lparr>data := Some blk', size_m := size_m m + ?r\<rparr>)"
        and l': "length blk' = length new"
        and z: "blk' ! (unat (size_m m) + unat ?r) = 0"
        and pre: "take (unat (size_m m)) blk' = take (unat (size_m m)) new"
        and mid: "take (unat ?r) (drop (unat (size_m m)) blk') = take (unat ?r) contents"
        by auto
      have call: "write_memory_callback realloc_ok junk contents sz nmemb m
                  = Returns (?r, ?m1\<lparr>data := Some blk', size_m := size_m m + ?r\<rparr>)"
        using True g re ro st by (simp add: write_memory_callback_def Let_def)
      have okm: "buffer_ok (?m1\<lparr>data := Some blk', size_m := size_m m + ?r\<rparr>)"
        using l' lnew room sr by (simp add: buffer_ok_def)
      have keep: "\<forall>blk. data m = Some blk
                       \<longrightarrow> take (unat (size_m m)) blk' = take (unat (size_m m)) blk"
      proof (intro allI impI)
        fix blk assume b: "data m = Some blk"
        with ok have lb: "length blk = unat (capacity m)" and sc: "unat (size_m m) \<le> unat (capacity m)"
          by (simp_all add: buffer_ok_def)
        from re b have "realloc True junk (Some blk) c = Some new" by simp
        from realloc_prefix [OF this, of "unat (size_m m)"] lb sc room
        have "take (unat (size_m m)) new = take (unat (size_m m)) blk" by simp
        with pre show "take (unat (size_m m)) blk' = take (unat (size_m m)) blk" by simp
      qed
      from call okm z keep mid sr room ro show ?thesis by simp
    qed
  qed
  qed
  have "(\<exists>m'. write_memory_callback realloc_ok junk contents sz nmemb m = Returns (0, m'))
            \<longleftrightarrow> (capacity m < size_m m + sz * nmemb + 1 \<and> \<not> realloc_ok) \<or> sz * nmemb = 0"
  proof (cases "capacity m < size_m m + sz * nmemb + 1 \<and> \<not> realloc_ok")
    case True
    with main show ?thesis by auto
  next
    case False
    with main obtain m' where
      "write_memory_callback realloc_ok junk contents sz nmemb m = Returns (sz * nmemb, m')"
      by auto
    with False show ?thesis by auto
  qed
  with main show ?thesis by blast
qed

theorem write_memory_callback_buffer_witness:
  "buffer_ok example_buffer
   \<and> unat (size_m example_buffer) + unat (1 :: size_t) * unat (2 :: size_t) + 1 \<le> 2 ^ 63
   \<and> unat (1 :: size_t) * unat (2 :: size_t) \<le> length [100, 101 :: byte]
   \<and> (\<exists>m' blk'.
         write_memory_callback True (\<lambda>i. 0) [100, 101] 1 2 example_buffer = Returns (2, m')
         \<and> buffer_ok m' \<and> data m' = Some blk'
         \<and> size_m m' = 5 \<and> blk' ! 5 = 0 \<and> unat (size_m m') + 1 \<le> unat (capacity m')
         \<and> take 3 blk' = [97, 98, 99] \<and> take 2 (drop 3 blk') = [100, 101])"
proof -
  have ok: "buffer_ok example_buffer" by (simp add: buffer_ok_def example_buffer_def)
  have fit: "unat (size_m example_buffer) + unat (1 :: size_t) * unat (2 :: size_t) + 1 \<le> 2 ^ 63"
    by (simp add: example_buffer_def)
  have src: "unat (1 :: size_t) * unat (2 :: size_t) \<le> length [100, 101 :: byte]" by simp
  from write_memory_callback_buffer [OF ok fit src, of True "\<lambda>i. 0"]
  obtain m' blk' where
    "write_memory_callback True (\<lambda>i. 0) [100, 101] 1 2 example_buffer = Returns (1 * 2, m')"
    "buffer_ok m'" "data m' = Some blk'" "size_m m' = size_m example_buffer + 1 * 2"
    "blk' ! unat (size_m m') = 0" "unat (size_m m') + 1 \<le> unat (capacity m')"
    "\<forall>blk. data example_buffer = Some blk
       \<longrightarrow> take (unat (size_m example_buffer)) blk' = take (unat (size_m example_buffer)) blk"
    "take (unat (1 * 2 :: size_t)) (drop (unat (size_m example_buffer)) blk')
       = take (unat (1 * 2 :: size_t)) [100, 101]"
    by auto
  then have "write_memory_callback True (\<lambda>i. 0) [100, 101] 1 2 example_buffer = Returns (2, m')
         \<and> buffer_ok m' \<and> data m' = Some blk'
         \<and> size_m m' = 5 \<and> blk' ! 5 = 0 \<and> unat (size_m m') + 1 \<le> unat (capacity m')
         \<and> take 3 blk' = [97, 98, 99] \<and> take 2 (drop 3 blk') = [100, 101]"
    by (simp add: example_buffer_def)
  with ok fit src show ?thesis by blast
qed

subsection \<open>C10: the out-pointer of \<open>ftp_client_get_filesize\<close>\<close>

text \<open>
  C10: whatever the arguments, a call of \<open>ftp_client_get_filesize\<close> that returns
  anything but \<open>FTP_OK\<close> leaves the value its \<open>size\<close> pointer refers to as it was.
\<close>

theorem get_filesize_writes_size_only_on_ok:
  assumes "ftp_client_get_filesize w e client remote_path size_ptr = Some res"
    and "fst res \<noteq> FTP_OK"
  shows "snd (snd (snd res)) = size_ptr"
  using assms
  by (auto simp: ftp_client_get_filesize_def Let_def
      split: option.splits sum.splits if_splits)

theorem get_filesize_writes_size_only_on_ok_witness:
  "\<exists>res. ftp_client_get_filesize example_world (example_engine 7) (Some example_client)
            (Some ''/missing.txt'') (Some 5) = Some res
         \<and> fst res \<noteq> FTP_OK \<and> snd (snd (snd res)) = Some 5"
proof -
  from filesize_result [OF example_client_curl example_url, of example_world "example_engine 7" 5]
  obtain c' w' where
    eq: "ftp_client_get_filesize example_world (example_engine 7) (Some example_client)
           (Some ''/missing.txt'') (Some 5) = Some (FTP_ERROR_TRANSFER, Some c', w', Some 5)"
    by (auto simp: example_engine_result curl_codes)
  have ne: "fst (FTP_ERROR_TRANSFER, Some c', w', Some (5::int)) \<noteq> FTP_OK" by simp
  from get_filesize_writes_size_only_on_ok [OF eq ne] eq ne show ?thesis by blast
qed

end
